theory Spec2Isabelle
  imports Complex_Main "HOL-Library.Monad_Syntax"
begin

section \<open>Actions, histories and the random source\<close>

text \<open>
  The strategies of \<^verbatim>\<open>axelrod_second.py\<close> are embedded as functions of the
  player's own history, the opponent's history (both in playing order, oldest move
  first) and, for the stochastic ones, the value \<open>r\<close> that \<^verbatim>\<open>random.random()\<close>
  returns if the call draws one (no strategy draws more than once per call).
  A strategy with private attributes takes the attribute record and returns it updated.
  The result \<open>None\<close> stands for a call that raises (an index out of range, a
  division by zero, a failed assertion). Python floats are read as real numbers: where
  a float operation rounds, its value differs from the real one in the last place, and
  a comparison that the reals decide at equality may come out the other way in the
  code (the float sum of 0.25 and five times 0.05 is just below 1/2, the real one is
  1/2). The evaluations below compare values that are exact as floats or far from
  the threshold.
\<close>

datatype action = C | D

fun flip :: "action \<Rightarrow> action" where
  "flip C = D"
| "flip D = C"

text \<open>\<open>neg_index h k\<close> is Python's \<^verbatim>\<open>h[-k]\<close>: the k-th move from the end, raising
  when the history is shorter than k.\<close>

definition neg_index :: "'a list \<Rightarrow> nat \<Rightarrow> 'a option" where
  "neg_index h k = (if 1 \<le> k \<and> k \<le> length h then Some (h ! (length h - k)) else None)"

text \<open>\<open>first_index h\<close> is \<^verbatim>\<open>h[0]\<close>.\<close>

definition first_index :: "'a list \<Rightarrow> 'a option" where
  "first_index h = (case h of [] \<Rightarrow> None | x # _ \<Rightarrow> Some x)"

text \<open>Python's true division: raises on a zero divisor.\<close>

definition py_div :: "real \<Rightarrow> real \<Rightarrow> real option" where
  "py_div a b = (if b = 0 then None else Some (a / b))"

text \<open>Modelled from the spec: the \<^verbatim>\<open>cooperations\<close> and \<^verbatim>\<open>defections\<close>
  attributes of a player live in \<^verbatim>\<open>axelrod.player\<close>, outside this file; the spec's
  History offers the "total cooperations/defections" of the moves played so far.\<close>

definition cooperations :: "action list \<Rightarrow> nat" where
  "cooperations h = count_list h C"

definition defections :: "action list \<Rightarrow> nat" where
  "defections h = count_list h D"

text \<open>Modelled from the spec: \<^verbatim>\<open>random_choice\<close> lives in \<^verbatim>\<open>axelrod.random_\<close>,
  outside this file; it is the spec's biased-coin choice of the random policy: Cooperate
  with probability \<open>p\<close>, decided by one uniform draw \<open>r\<close> from [0, 1), the two
  certain cases answered without a draw.\<close>

definition random_choice :: "real \<Rightarrow> real \<Rightarrow> action" where
  "random_choice p r =
     (if p = 0 then D else if p = 1 then C else if r < p then C else D)"

text \<open>Modelled from the spec: the payoff function is supplied by the match; it maps the
  pair (own action, opponent's action) of a round to the pair of payoffs. The game is a
  parameter of the strategies that read it. \<open>default_game\<close> is the classic
  Prisoner's Dilemma matrix (R, P, S, T) = (3, 1, 0, 5).\<close>

type_synonym game = "action \<times> action \<Rightarrow> int \<times> int"

fun default_game :: game where
  "default_game (C, C) = (3, 3)"
| "default_game (C, D) = (0, 5)"
| "default_game (D, C) = (5, 0)"
| "default_game (D, D) = (1, 1)"

text \<open>Modelled from the spec: \<^verbatim>\<open>compute_final_score\<close> lives in
  \<^verbatim>\<open>axelrod.interaction_utils\<close>, outside this file; it is the running cumulative
  payoff pair of the rounds played so far, and there is none before the first round.\<close>

definition compute_final_score :: "game \<Rightarrow> (action \<times> action) list \<Rightarrow> (int \<times> int) option" where
  "compute_final_score g rounds =
     (if rounds = [] then None
      else Some (sum_list (map (\<lambda>p. fst (g p)) rounds), sum_list (map (\<lambda>p. snd (g p)) rounds)))"

datatype mode = Normal | Fair_weather | Defect

section \<open>Champion\<close>

definition champion_strategy :: "action list \<Rightarrow> action list \<Rightarrow> real \<Rightarrow> action option" where
  "champion_strategy own opp r =
     (let current_round = length own in
      if current_round = 0 then Some C
      else if current_round < 10 then Some C
      else if current_round < 25 then neg_index opp 1
      else do {
        defection_prop \<leftarrow> py_div (real (defections opp)) (real (length opp));
        last_opp \<leftarrow> neg_index opp 1;
        if last_opp = D then (if defection_prop \<ge> max 0.4 r then Some D else Some C)
        else Some C
      })"

section \<open>Eatherley\<close>

definition eatherley_strategy :: "action list \<Rightarrow> action list \<Rightarrow> real \<Rightarrow> action option" where
  "eatherley_strategy own opp r =
     (if length opp = 0 then Some C
      else do {
        last_opp \<leftarrow> neg_index opp 1;
        if last_opp = C then Some C
        else do {
          defection_prop \<leftarrow> py_div (real (defections opp)) (real (length opp));
          Some (random_choice (1 - defection_prop) r)
        }
      })"

section \<open>Tester\<close>

record tester_state =
  is_TFT :: bool

definition tester_init :: tester_state where
  "tester_init = \<lparr>is_TFT = False\<rparr>"

definition tester_strategy ::
  "tester_state \<Rightarrow> action list \<Rightarrow> action list \<Rightarrow> (action \<times> tester_state) option" where
  "tester_strategy st own opp =
     (if opp = [] then Some (D, st)
      else if is_TFT st then
        Some (if drop (length opp - 1) opp = [D] then D else C, st)
      else do {
        last_opp \<leftarrow> neg_index opp 1;
        if last_opp = D then Some (C, st\<lparr>is_TFT := True\<rparr>)
        else if length own \<in> {1, 2} then Some (C, st)
        else do {
          last_own \<leftarrow> neg_index own 1;
          Some (flip last_own, st)
        }
      })"

section \<open>Gladstein\<close>

record gladstein_state =
  patsy :: bool

definition gladstein_init :: gladstein_state where
  "gladstein_init = \<lparr>patsy = True\<rparr>"

definition gladstein_strategy ::
  "gladstein_state \<Rightarrow> action list \<Rightarrow> action list \<Rightarrow> (action \<times> gladstein_state) option" where
  "gladstein_strategy st own opp =
     (if own = [] then Some (D, st)
      else if patsy st then do {
        last_opp \<leftarrow> neg_index opp 1;
        if last_opp = D then Some (C, st\<lparr>patsy := False\<rparr>)
        else do {
          cooperation_ratio \<leftarrow> py_div (real (cooperations own)) (real (length own));
          if cooperation_ratio > 0.5 then Some (D, st) else Some (C, st)
        }
      }
      else do {
        last_opp \<leftarrow> neg_index opp 1;
        Some (last_opp, st)
      })"

section \<open>Tranquilizer\<close>

text \<open>The attributes keep the source's names; the three-valued cool-down counter and
  the two sample counts only take the values written to them, natural numbers. The code
  calls \<^verbatim>\<open>compute_final_score\<close> without a game, which scores with the default game:
  the strategy of the code is \<open>tranquilizer_strategy default_game\<close>. The game is kept
  as a parameter so that what does not depend on the payoffs holds for every game. The
  two probabilities are floats in the code and reals here.\<close>

record tranquilizer_state =
  num_turns_after_good_defection :: nat
  opponent_consecutive_defections :: nat
  one_turn_after_good_defection_ratio :: real
  two_turns_after_good_defection_ratio :: real
  one_turn_after_good_defection_ratio_count :: nat
  two_turns_after_good_defection_ratio_count :: nat

definition tranquilizer_init :: tranquilizer_state where
  "tranquilizer_init =
     \<lparr>num_turns_after_good_defection = 0,
      opponent_consecutive_defections = 0,
      one_turn_after_good_defection_ratio = 5,
      two_turns_after_good_defection_ratio = 0,
      one_turn_after_good_defection_ratio_count = 1,
      two_turns_after_good_defection_ratio_count = 1\<rparr>"

text \<open>\<^verbatim>\<open>self.dict = {C: 0, D: 1}\<close>\<close>

fun dict :: "action \<Rightarrow> real" where
  "dict C = 0"
| "dict D = 1"

definition update_state ::
  "tranquilizer_state \<Rightarrow> action list \<Rightarrow> action list \<Rightarrow> tranquilizer_state option" where
  "update_state st own opp = do {
     last_opp \<leftarrow> neg_index opp 1;
     let st1 = (if last_opp = D
                then st\<lparr>opponent_consecutive_defections := opponent_consecutive_defections st + 1\<rparr>
                else st\<lparr>opponent_consecutive_defections := 0\<rparr>);
     if num_turns_after_good_defection st1 = 2 then do {
       last_own \<leftarrow> neg_index own 1;
       Some (st1\<lparr>num_turns_after_good_defection := 0,
                 two_turns_after_good_defection_ratio :=
                   ((two_turns_after_good_defection_ratio st1
                      * real (two_turns_after_good_defection_ratio_count st1))
                    + (3 - (3 * dict last_opp))
                    + (2 * dict last_own)
                    - (dict last_opp * dict last_own))
                   / (real (two_turns_after_good_defection_ratio_count st1) + 1),
                 two_turns_after_good_defection_ratio_count :=
                   two_turns_after_good_defection_ratio_count st1 + 1\<rparr>)
     }
     else if num_turns_after_good_defection st1 = 1 then do {
       last_own \<leftarrow> neg_index own 1;
       Some (st1\<lparr>num_turns_after_good_defection := 2,
                 one_turn_after_good_defection_ratio :=
                   ((one_turn_after_good_defection_ratio st1
                      * real (one_turn_after_good_defection_ratio_count st1))
                    + (3 - (3 * dict last_opp))
                    + (2 * dict last_own)
                    - (dict last_opp * dict last_own))
                   / (real (one_turn_after_good_defection_ratio_count st1) + 1),
                 one_turn_after_good_defection_ratio_count :=
                   one_turn_after_good_defection_ratio_count st1 + 1\<rparr>)
     }
     else Some st1
   }"

definition tranquilizer_strategy ::
  "game \<Rightarrow> tranquilizer_state \<Rightarrow> action list \<Rightarrow> action list \<Rightarrow> real
     \<Rightarrow> (action \<times> tranquilizer_state) option" where
  "tranquilizer_strategy g st own opp r =
     (if own = [] then Some (C, st)
      else do {
        st1 \<leftarrow> update_state st own opp;
        if num_turns_after_good_defection st1 \<in> {1, 2} then Some (C, st1)
        else do {
          current_score \<leftarrow> compute_final_score g (zip own opp);
          last_opp \<leftarrow> neg_index opp 1;
          if real_of_int (fst current_score) / (real (length own) + 1) \<ge> 2.25 then
            let probability =
                  (0.95 - ((one_turn_after_good_defection_ratio st1
                            + two_turns_after_good_defection_ratio st1 - 5) / 15))
                  + (1 / ((real (length own) + 1) ^ 2))
                  - (dict last_opp / 4)
            in if r \<le> probability then Some (C, st1)
               else Some (D, st1\<lparr>num_turns_after_good_defection := 1\<rparr>)
          else if real_of_int (fst current_score) / (real (length own) + 1) \<ge> 1.75 then
            let probability =
                  (0.25 + ((real (cooperations opp) + 1) / (real (length own) + 1)))
                  - (real (opponent_consecutive_defections st1) * 0.25)
                  + (real_of_int (fst current_score - snd current_score) / 100)
                  + (4 / (real (length own) + 1))
            in if r \<le> probability then Some (C, st1) else Some (D, st1)
          else Some (last_opp, st1)
        }
      })"

section \<open>MoreGrofman\<close>

text \<open>The slice \<^verbatim>\<open>opponent.history[-8:-1]\<close> is the last eight moves without the
  most recent one; Python clamps a slice to the list, as \<open>drop\<close> and \<open>butlast\<close> do.\<close>

definition moregrofman_strategy :: "action list \<Rightarrow> action list \<Rightarrow> action option" where
  "moregrofman_strategy own opp =
     (if length own < 2 then Some C
      else if 2 \<le> length own \<and> length own \<le> 6 then neg_index opp 1
      else
        let opponent_defections_last_8_rounds =
              count_list (drop (length opp - 8) (butlast opp)) D
        in do {
          last_own \<leftarrow> neg_index own 1;
          if last_own = C \<and> opponent_defections_last_8_rounds \<le> 2 then Some C
          else if last_own = D \<and> opponent_defections_last_8_rounds \<le> 1 then Some C
          else Some D
        })"

section \<open>Kluepfel\<close>

text \<open>The four response counters start at zero and are only incremented.\<close>

record kluepfel_state =
  k_cd_counts :: nat
  k_dd_counts :: nat
  k_dc_counts :: nat
  k_cc_counts :: nat

definition kluepfel_init :: kluepfel_state where
  "kluepfel_init = \<lparr>k_cd_counts = 0, k_dd_counts = 0, k_dc_counts = 0, k_cc_counts = 0\<rparr>"

text \<open>"First update the response matrix."\<close>

definition kluepfel_update :: "kluepfel_state \<Rightarrow> action list \<Rightarrow> action list \<Rightarrow> kluepfel_state option" where
  "kluepfel_update st own opp =
     (if length own \<ge> 2 then do {
        own_two \<leftarrow> neg_index own 2;
        last_opp \<leftarrow> neg_index opp 1;
        if own_two = D then
          (if last_opp = C then Some (st\<lparr>k_cd_counts := k_cd_counts st + 1\<rparr>)
           else Some (st\<lparr>k_dd_counts := k_dd_counts st + 1\<rparr>))
        else
          (if last_opp = C then Some (st\<lparr>k_dc_counts := k_dc_counts st + 1\<rparr>)
           else Some (st\<lparr>k_cc_counts := k_cc_counts st + 1\<rparr>))
      }
      else Some st)"

text \<open>"Check for randomness": the guard on the number of rounds played, and the
  inequality on the counters.\<close>

definition randomness_check_due :: "action list \<Rightarrow> bool" where
  "randomness_check_due own = (length own > 26)"

definition randomness_inequality :: "kluepfel_state \<Rightarrow> bool" where
  "randomness_inequality st =
     (real (k_cd_counts st) \<ge> real (k_cd_counts st + k_dd_counts st) / 2
                                 - 0.75 * sqrt (real (k_cd_counts st + k_dd_counts st))
      \<and> real (k_cc_counts st) \<ge> real (k_dc_counts st + k_cc_counts st) / 2
                                 - 0.75 * sqrt (real (k_dc_counts st + k_cc_counts st)))"

text \<open>"Otherwise respond to recent history." A Python function that reaches its end
  returns \<^verbatim>\<open>None\<close>, no action: the inner \<open>None\<close> of the result.\<close>

definition kluepfel_respond :: "action list \<Rightarrow> real \<Rightarrow> action option" where
  "kluepfel_respond opp r =
     (let one_move_ago = (if length opp \<ge> 1 then opp ! (length opp - 1) else C);
          two_moves_ago = (if length opp \<ge> 2 then opp ! (length opp - 2) else C);
          three_moves_ago = (if length opp \<ge> 3 then opp ! (length opp - 3) else C)
      in if one_move_ago = two_moves_ago \<and> two_moves_ago = three_moves_ago then Some one_move_ago
         else if one_move_ago = two_moves_ago then
           (if r < 0.9 then Some one_move_ago else Some (flip one_move_ago))
         else if one_move_ago = C then
           (if r < 0.7 then Some one_move_ago else Some (flip one_move_ago))
         else if one_move_ago = D then
           (if r < 0.6 then Some one_move_ago else Some (flip one_move_ago))
         else None)"

definition kluepfel_strategy ::
  "kluepfel_state \<Rightarrow> action list \<Rightarrow> action list \<Rightarrow> real
     \<Rightarrow> (action option \<times> kluepfel_state) option" where
  "kluepfel_strategy st own opp r = do {
     st1 \<leftarrow> kluepfel_update st own opp;
     if randomness_check_due own \<and> randomness_inequality st1 then Some (Some D, st1)
     else Some (kluepfel_respond opp r, st1)
   }"

text \<open>A call as the match makes it: the match needs an action, so a call that returns
  none fails the round.\<close>

definition kluepfel_round ::
  "kluepfel_state \<Rightarrow> action list \<Rightarrow> action list \<Rightarrow> real \<Rightarrow> (action \<times> kluepfel_state) option" where
  "kluepfel_round st own opp r =
     (case kluepfel_strategy st own opp r of
        Some (Some a, st') \<Rightarrow> Some (a, st')
      | _ \<Rightarrow> None)"

section \<open>Borufsen\<close>

record borufsen_state =
  b_cd_counts :: nat
  b_cc_counts :: nat
  mutual_defect_streak :: nat
  echo_streak :: nat
  flip_next_defect :: bool
  b_mode :: mode

definition borufsen_init :: borufsen_state where
  "borufsen_init =
     \<lparr>b_cd_counts = 0, b_cc_counts = 0, mutual_defect_streak = 0, echo_streak = 0,
      flip_next_defect = False, b_mode = Normal\<rparr>"

definition borufsen_try_return :: "borufsen_state \<Rightarrow> action \<Rightarrow> action \<times> borufsen_state" where
  "borufsen_try_return st to_return =
     (if to_return = C then (C, st)
      else if flip_next_defect st then (C, st\<lparr>flip_next_defect := False\<rparr>)
      else (D, st))"

text \<open>"Update the response history."\<close>

definition borufsen_update ::
  "borufsen_state \<Rightarrow> action list \<Rightarrow> action list \<Rightarrow> borufsen_state option" where
  "borufsen_update st own opp =
     (let turn = length own + 1 in
      if turn \<ge> 3 then do {
        last_opp \<leftarrow> neg_index opp 1;
        if last_opp = C then do {
          own_two \<leftarrow> neg_index own 2;
          if own_two = C then Some (st\<lparr>b_cc_counts := b_cc_counts st + 1\<rparr>)
          else Some (st\<lparr>b_cd_counts := b_cd_counts st + 1\<rparr>)
        }
        else Some st
      }
      else Some st)"

text \<open>"Check if it's time for a mode change." The result holds the attributes after the
  block and whether the block returned Defect itself (the special case of leaving Defect
  mode).\<close>

definition borufsen_mode_change :: "borufsen_state \<Rightarrow> nat \<Rightarrow> borufsen_state \<times> bool" where
  "borufsen_mode_change st turn =
     (if turn > 2 \<and> turn mod 25 = 2 then
        let coming_from_defect = (b_mode st = Defect);
            coops = b_cd_counts st + b_cc_counts st;
            m1 = (if coops < 3 then Defect else Normal);
            m2 = (if (coops \<ge> 8 \<and> coops \<le> 17) \<and> real (b_cc_counts st) / real coops < 0.7
                  then Defect else m1);
            st1 = st\<lparr>b_mode := m2, b_cd_counts := 0, b_cc_counts := 0\<rparr>;
            st2 = (if b_mode st1 = Defect
                   then st1\<lparr>mutual_defect_streak := 0, echo_streak := 0, flip_next_defect := False\<rparr>
                   else st1)
        in (st2, b_mode st2 = Normal \<and> coming_from_defect)
      else (st, False))"

text \<open>"Proceed": Defect mode, or the ranked rules of Normal mode.\<close>

definition borufsen_proceed ::
  "borufsen_state \<Rightarrow> action list \<Rightarrow> action list \<Rightarrow> (action \<times> borufsen_state) option" where
  "borufsen_proceed st own opp =
     (let turn = length own + 1 in
      if b_mode st = Defect then Some (D, st)
      else if b_mode st \<noteq> Normal then None
      else do {
        last_own \<leftarrow> neg_index own 1;
        last_opp \<leftarrow> neg_index opp 1;
        let st1 = (if last_own = D \<and> last_opp = D
                   then st\<lparr>mutual_defect_streak := mutual_defect_streak st + 1\<rparr>
                   else st\<lparr>mutual_defect_streak := 0\<rparr>);
        if mutual_defect_streak st1 \<ge> 3 then
          Some (borufsen_try_return (st1\<lparr>mutual_defect_streak := 0, echo_streak := 0\<rparr>) C)
        else do {
          my_two_back \<leftarrow> (if turn \<ge> 3 then neg_index own 2 else Some C);
          opp_two_back \<leftarrow> (if turn \<ge> 3 then neg_index opp 2 else Some C);
          let st2 = (if last_own \<noteq> last_opp \<and> last_own = opp_two_back \<and> last_opp = my_two_back
                     then st1\<lparr>echo_streak := echo_streak st1 + 1\<rparr>
                     else st1\<lparr>echo_streak := 0\<rparr>);
          let st3 = (if echo_streak st2 \<ge> 3
                     then st2\<lparr>mutual_defect_streak := 0, echo_streak := 0, flip_next_defect := True\<rparr>
                     else st2);
          Some (borufsen_try_return st3 last_opp)
        }
      })"

definition borufsen_strategy ::
  "borufsen_state \<Rightarrow> action list \<Rightarrow> action list \<Rightarrow> (action \<times> borufsen_state) option" where
  "borufsen_strategy st own opp =
     (let turn = length own + 1 in
      if turn = 1 then Some (C, st)
      else do {
        st1 \<leftarrow> borufsen_update st own opp;
        let (st2, returns_defect) = borufsen_mode_change st1 turn;
        if returns_defect then Some (D, st2)
        else borufsen_proceed st2 own opp
      })"

section \<open>Cave\<close>

definition cave_strategy :: "action list \<Rightarrow> action list \<Rightarrow> real \<Rightarrow> action option" where
  "cave_strategy own opp r =
     (let turn = length own + 1 in
      if turn = 1 then Some C
      else
        let number_defects = defections opp;
            perc_defects = real number_defects / real turn
        in if turn > 39 \<and> perc_defects > 0.39 then Some D
           else if turn > 29 \<and> perc_defects > 0.65 then Some D
           else if turn > 19 \<and> perc_defects > 0.79 then Some D
           else do {
             last_opp \<leftarrow> neg_index opp 1;
             if last_opp = D then
               (if number_defects > 17 then Some D else Some (random_choice 0.5 r))
             else Some C
           })"

section \<open>WmAdams\<close>

definition wmadams_strategy :: "action list \<Rightarrow> action list \<Rightarrow> real \<Rightarrow> action option" where
  "wmadams_strategy own opp r =
     (if length own \<le> 1 then Some C
      else do {
        first_opp \<leftarrow> first_index opp;
        let number_defects = int (defections opp) - (if first_opp = D then 1 else 0);
        if number_defects \<in> {4, 7, 9} then Some D
        else if number_defects > 9 then do {
          last_opp \<leftarrow> neg_index opp 1;
          if last_opp = D then Some (random_choice ((1 / 2) ^ nat (number_defects - 9)) r)
          else Some C
        }
        else Some C
      })"

section \<open>GraaskampKatzen\<close>

record graaskampkatzen_state =
  own_score :: int
  g_mode :: mode

definition graaskampkatzen_init :: graaskampkatzen_state where
  "graaskampkatzen_init = \<lparr>own_score = 0, g_mode = Normal\<rparr>"

definition update_score ::
  "game \<Rightarrow> graaskampkatzen_state \<Rightarrow> action list \<Rightarrow> action list \<Rightarrow> graaskampkatzen_state option" where
  "update_score g st own opp = do {
     last_own \<leftarrow> neg_index own 1;
     last_opp \<leftarrow> neg_index opp 1;
     Some (st\<lparr>own_score := own_score st + fst (g (last_own, last_opp))\<rparr>)
   }"

definition graaskampkatzen_strategy ::
  "game \<Rightarrow> graaskampkatzen_state \<Rightarrow> action list \<Rightarrow> action list
     \<Rightarrow> (action \<times> graaskampkatzen_state) option" where
  "graaskampkatzen_strategy g st own opp =
     (if g_mode st = Defect then Some (D, st)
      else
        let turn = length own + 1 in
        if turn = 1 then Some (C, st)
        else do {
          st1 \<leftarrow> update_score g st own opp;
          if turn = 11 \<and> own_score st1 < 23 \<or>
             turn = 21 \<and> own_score st1 < 53 \<or>
             turn = 31 \<and> own_score st1 < 83 \<or>
             turn = 41 \<and> own_score st1 < 113 \<or>
             turn = 51 \<and> own_score st1 < 143 \<or>
             turn = 101 \<and> own_score st1 < 293
          then Some (D, st1\<lparr>g_mode := Defect\<rparr>)
          else do {
            last_opp \<leftarrow> neg_index opp 1;
            Some (last_opp, st1)
          }
        })"

section \<open>Weiner\<close>

record weiner_state =
  forgive_flag :: bool
  grudge :: nat
  defect_padding :: nat
  last_twelve :: "nat list"
  lt_index :: nat

definition weiner_init :: weiner_state where
  "weiner_init =
     \<lparr>forgive_flag = False, grudge = 0, defect_padding = 0,
      last_twelve = replicate 12 0, lt_index = 0\<rparr>"

text \<open>"We put the logic here to check for the defective override."\<close>

definition weiner_try_return :: "weiner_state \<Rightarrow> action \<Rightarrow> action" where
  "weiner_try_return st to_return = (if sum_list (last_twelve st) \<ge> 5 then D else to_return)"

text \<open>"Update history, lag 1." Writing a slot outside the list raises.\<close>

definition weiner_update :: "weiner_state \<Rightarrow> action list \<Rightarrow> weiner_state option" where
  "weiner_update st opp =
     (if length opp \<ge> 2 then
        (if lt_index st < length (last_twelve st) then do {
           opp_two \<leftarrow> neg_index opp 2;
           let lt0 = (last_twelve st)[lt_index st := 0];
           let lt1 = (if opp_two = D then lt0[lt_index st := 1] else lt0);
           Some (st\<lparr>last_twelve := lt1, lt_index := (lt_index st + 1) mod 12\<rparr>)
         }
         else None)
      else Some st)"

definition weiner_strategy ::
  "weiner_state \<Rightarrow> action list \<Rightarrow> action list \<Rightarrow> (action \<times> weiner_state) option" where
  "weiner_strategy st own opp =
     (if length opp = 0 then Some (C, st)
      else do {
        st1 \<leftarrow> weiner_update st opp;
        last_opp \<leftarrow> neg_index opp 1;
        if forgive_flag st1 then
          let st2 = st1\<lparr>forgive_flag := False, defect_padding := 0\<rparr> in
          if grudge st2 < length own + 1 \<and> last_opp = D then
            let st3 = st2\<lparr>grudge := grudge st2 + 20\<rparr> in
            Some (weiner_try_return st3 C, st3)
          else Some (weiner_try_return st2 last_opp, st2)
        else
          let st2 = (if last_opp = D then st1\<lparr>defect_padding := defect_padding st1 + 1\<rparr>
                     else (if defect_padding st1 mod 2 = 1
                           then st1\<lparr>forgive_flag := True\<rparr> else st1)\<lparr>defect_padding := 0\<rparr>)
          in Some (weiner_try_return st2 last_opp, st2)
      })"

section \<open>Harrington\<close>

text \<open>\<open>move_history\<close> is the 4x2 matrix of floats, a list of four rows of two cells;
  \<open>history_row\<close> ranges over its rows and \<open>parity_bit\<close> over the two cells of
  \<open>parity_streak\<close>. \<open>coops_in_first_36\<close> is set to \<^verbatim>\<open>None\<close> and never read.
  \<open>prob\<close> is a float in the code and a real here; it is read only after round 37.\<close>

record harrington_state =
  h_mode :: mode
  recorded_defects :: nat
  exit_defect_meter :: int
  coops_in_first_36 :: "nat option"
  was_defective :: bool
  prob :: real
  move_history :: "real list list"
  history_row :: nat
  more_coop :: int
  generous_n_turns_ago :: int
  burned :: bool
  defect_streak :: nat
  parity_streak :: "nat list"
  parity_bit :: nat
  parity_limit :: nat
  parity_hits :: nat

definition harrington_init :: harrington_state where
  "harrington_init =
     \<lparr>h_mode = Normal, recorded_defects = 0, exit_defect_meter = 0,
      coops_in_first_36 = None, was_defective = False, prob = 0.25,
      move_history = [[0, 0], [0, 0], [0, 0], [0, 0]], history_row = 0,
      more_coop = 0, generous_n_turns_ago = 3, burned = False,
      defect_streak = 0, parity_streak = [0, 0], parity_bit = 0,
      parity_limit = 5, parity_hits = 0\<rparr>"

definition harrington_try_return ::
  "harrington_state \<Rightarrow> action \<Rightarrow> bool \<Rightarrow> bool \<Rightarrow> action \<times> harrington_state" where
  "harrington_try_return st to_return lower_flags inc_parity =
     (let st1 = (if lower_flags \<and> to_return = C
                 then st\<lparr>more_coop := more_coop st - 1,
                         generous_n_turns_ago := generous_n_turns_ago st + 1\<rparr>
                 else st);
          st2 = (if inc_parity \<and> to_return = D
                 then st1\<lparr>parity_streak :=
                          (parity_streak st1)[parity_bit st1 :=
                             parity_streak st1 ! parity_bit st1 + 1]\<rparr>
                 else st1)
      in (to_return, st2))"

text \<open>The marginals of the matrix: \<^verbatim>\<open>sum(axis=1)\<close> over each row, \<^verbatim>\<open>sum(axis=0)\<close>
  over each column, and their outer product.\<close>

definition row_sums :: "real list list \<Rightarrow> real list" where
  "row_sums m = map sum_list m"

definition col_sums :: "real list list \<Rightarrow> real list" where
  "col_sums m = map (\<lambda>j. sum_list (map (\<lambda>row. row ! j) m)) [0, 1]"

definition expected_matrix :: "real list list \<Rightarrow> nat \<Rightarrow> nat \<Rightarrow> real" where
  "expected_matrix m i j = row_sums m ! i * col_sums m ! j"

text \<open>The cells in the order of the two nested loops.\<close>

definition cells :: "(nat \<times> nat) list" where
  "cells = concat (map (\<lambda>i. map (\<lambda>j. (i, j)) [0, 1]) [0, 1, 2, 3])"

definition chi_squared :: "real list list \<Rightarrow> real \<Rightarrow> real" where
  "chi_squared m denom =
     fold (\<lambda>(i, j) chi.
             let expct = expected_matrix m i j / denom in
             if expct > 1 then chi + (expct - m ! i ! j) ^ 2 / expct else chi)
          cells 0"

text \<open>A float of the matrix divided by zero is an infinity or not a number, which
  decides the first comparison without raising; the integer \<open>recorded_defects\<close>
  divided by zero raises.\<close>

definition detect_random :: "harrington_state \<Rightarrow> int \<Rightarrow> bool option" where
  "detect_random st turn =
     (let denom = real_of_int (turn - 2) in
      if denom = 0 then (if move_history st ! 0 ! 0 > 0 then Some False else None)
      else if move_history st ! 0 ! 0 / denom \<ge> 0.8 then Some False
      else if real (recorded_defects st) / denom < 0.25
              \<or> real (recorded_defects st) / denom > 0.75 then Some False
      else if chi_squared (move_history st) denom > 3 then Some False
      else Some True)"

definition detect_streak :: "harrington_state \<Rightarrow> action \<Rightarrow> bool \<times> harrington_state" where
  "detect_streak st last_move =
     (let st1 = (if last_move = D then st\<lparr>defect_streak := defect_streak st + 1\<rparr>
                 else st\<lparr>defect_streak := 0\<rparr>)
      in (defect_streak st1 \<ge> 20, st1))"

definition detect_parity_streak :: "harrington_state \<Rightarrow> action \<Rightarrow> bool \<times> harrington_state" where
  "detect_parity_streak st last_move =
     (let st1 = st\<lparr>parity_bit := 1 - parity_bit st\<rparr>;
          st2 = (if last_move = D
                 then st1\<lparr>parity_streak :=
                          (parity_streak st1)[parity_bit st1 :=
                             parity_streak st1 ! parity_bit st1 + 1]\<rparr>
                 else st1\<lparr>parity_streak := (parity_streak st1)[parity_bit st1 := 0]\<rparr>)
      in (parity_streak st2 ! parity_bit st2 \<ge> parity_limit st2, st2))"

text \<open>"History only gets updated outside of Defect mode."\<close>

definition harrington_update_history :: "harrington_state \<Rightarrow> nat \<Rightarrow> action \<Rightarrow> harrington_state" where
  "harrington_update_history st turn last_opp =
     (if turn > 2 then
        let st1 = (if last_opp = D then st\<lparr>recorded_defects := recorded_defects st + 1\<rparr> else st);
            opp_col = (if last_opp = D then 1 else 0);
            row = move_history st1 ! history_row st1
        in st1\<lparr>move_history :=
                 (move_history st1)[history_row st1 := row[opp_col := row ! opp_col + 1]]\<rparr>
      else st)"

text \<open>"Continue with Normal mode": the streaks, the scheduled cooperations, and the
  rule of the round.\<close>

definition harrington_normal ::
  "harrington_state \<Rightarrow> nat \<Rightarrow> action \<Rightarrow> real \<Rightarrow> action \<times> harrington_state" where
  "harrington_normal st turn last_opp r =
     (let (streak, st1) = detect_streak st last_opp in
      if streak then harrington_try_return st1 D True True
      else
        let (parity, st2) = detect_parity_streak st1 last_opp in
        if parity then
          let st3 = st2\<lparr>parity_streak := (parity_streak st2)[parity_bit st2 := 0],
                        parity_hits := parity_hits st2 + 1\<rparr>;
              st4 = (if parity_hits st3 \<ge> 8 then st3\<lparr>parity_limit := 3\<rparr> else st3)
          in harrington_try_return st4 C True True
        else if more_coop st2 \<ge> 1 then harrington_try_return st2 C True True
        else if turn < 37 then harrington_try_return st2 last_opp True True
        else if turn = 37 then
          harrington_try_return (st2\<lparr>more_coop := 2, generous_n_turns_ago := 1\<rparr>) D False False
        else if burned st2 \<or> r > prob st2 then harrington_try_return st2 last_opp True True
        else
          harrington_try_return
            (st2\<lparr>prob := prob st2 + 0.05, more_coop := 2, generous_n_turns_ago := 1\<rparr>)
            D False False)"

definition harrington_strategy ::
  "harrington_state \<Rightarrow> action list \<Rightarrow> action list \<Rightarrow> real
     \<Rightarrow> (action \<times> harrington_state) option" where
  "harrington_strategy st own opp r =
     (let turn = length own + 1 in
      if turn = 1 then Some (C, st)
      else do {
        last_opp \<leftarrow> neg_index opp 1;
        last_own \<leftarrow> neg_index own 1;
        if h_mode st = Defect then
          let st1 = (if last_opp = D then st\<lparr>exit_defect_meter := exit_defect_meter st + 1\<rparr>
                     else st\<lparr>exit_defect_meter := exit_defect_meter st - 3\<rparr>)
          in if exit_defect_meter st1 \<ge> 11 then
               Some (harrington_try_return
                       (st1\<lparr>h_mode := Normal, was_defective := True, more_coop := 2\<rparr>)
                       C False False)
             else Some (harrington_try_return st1 D True False)
        else do {
          let st1 = harrington_update_history st turn last_opp;
          is_random \<leftarrow> (if turn mod 15 = 0 \<and> turn > 15 \<and> \<not> was_defective st1
                         then detect_random st1 (int turn) else Some False);
          if is_random then
            Some (harrington_try_return (st1\<lparr>h_mode := Defect\<rparr>) D False False)
          else
            let st2 = st1\<lparr>history_row :=
                            (if last_opp = D then 1 else 0) + (if last_own = D then 2 else 0)\<rparr>;
                st3 = (if generous_n_turns_ago st2 = 2 \<and> last_opp = D
                       then st2\<lparr>burned := True\<rparr> else st2)
            in if turn = 38 \<and> last_opp = D \<and> cooperations opp = 36 then
                 Some (harrington_try_return (st3\<lparr>h_mode := Fair_weather\<rparr>) C False False)
               else if h_mode st3 = Fair_weather \<and> last_opp \<noteq> D then
                 Some (harrington_try_return st3 C True False)
               else
                 Some (harrington_normal
                         (if h_mode st3 = Fair_weather then st3\<lparr>h_mode := Normal\<rparr> else st3)
                         turn last_opp r)
        }
      })"

subsection \<open>The randomness test as documented\<close>

text \<open>The docstring of \<^verbatim>\<open>detect_random\<close> and the spec describe the statistic with
  the words "terms where expected counts are less than 1 get excluded", and the test as
  the conjunction of three checks. \<open>chi_squared_documented\<close> and
  \<open>detect_random_documented\<close> follow these words, to be compared with
  \<open>chi_squared\<close> and \<open>detect_random\<close>, which follow the code.\<close>

definition chi_squared_documented :: "real list list \<Rightarrow> real \<Rightarrow> real" where
  "chi_squared_documented m denom =
     fold (\<lambda>(i, j) chi.
             let expct = expected_matrix m i j / denom in
             if expct < 1 then chi else chi + (expct - m ! i ! j) ^ 2 / expct)
          cells 0"

definition detect_random_documented :: "harrington_state \<Rightarrow> int \<Rightarrow> bool option" where
  "detect_random_documented st turn =
     (let denom = real_of_int (turn - 2) in
      if denom = 0 then (if move_history st ! 0 ! 0 > 0 then Some False else None)
      else Some (move_history st ! 0 ! 0 / denom < 0.8
                 \<and> 0.25 \<le> real (recorded_defects st) / denom
                 \<and> real (recorded_defects st) / denom \<le> 0.75
                 \<and> chi_squared_documented (move_history st) denom \<le> 3))"

section \<open>Playing a match\<close>

text \<open>Modelled from the spec: the round loop belongs to the match orchestration,
  outside this file. It calls the strategy once per round with both histories of the
  rounds played so far (of length t - 1 at round t) and appends the action returned and
  the opponent's simultaneous move. \<open>play strategy st moves draws\<close> plays one round per
  move of the opponent in \<open>moves\<close>, from the attributes \<open>st\<close>, and returns the player's
  history and attributes after the last round; \<open>draws k\<close> is the random draw available
  to the call that follows \<open>k\<close> rounds.\<close>

fun play_from ::
  "('s \<Rightarrow> action list \<Rightarrow> action list \<Rightarrow> real \<Rightarrow> (action \<times> 's) option) \<Rightarrow> (nat \<Rightarrow> real)
     \<Rightarrow> 's \<Rightarrow> action list \<Rightarrow> action list \<Rightarrow> action list \<Rightarrow> (action list \<times> 's) option" where
  "play_from strategy draws st own opp [] = Some (own, st)"
| "play_from strategy draws st own opp (x # xs) =
     (case strategy st own opp (draws (length own)) of
        None \<Rightarrow> None
      | Some (a, st') \<Rightarrow> play_from strategy draws st' (own @ [a]) (opp @ [x]) xs)"

definition play ::
  "('s \<Rightarrow> action list \<Rightarrow> action list \<Rightarrow> real \<Rightarrow> (action \<times> 's) option) \<Rightarrow> 's
     \<Rightarrow> action list \<Rightarrow> (nat \<Rightarrow> real) \<Rightarrow> (action list \<times> 's) option" where
  "play strategy st moves draws = play_from strategy draws st [] [] moves"

section \<open>Invariants used in the proofs\<close>

text \<open>What one slot of Weiner's \<open>last_twelve\<close> holds for a move, and the ring buffer
  after the moves \<open>recorded\<close> have been written to it: read from \<open>lt_index\<close>, the
  oldest slot, it is the last twelve entries of twelve zeros followed by the recorded
  moves.\<close>

fun defect_code :: "action \<Rightarrow> nat" where
  "defect_code C = 0"
| "defect_code D = 1"

definition weiner_window :: "weiner_state \<Rightarrow> action list \<Rightarrow> bool" where
  "weiner_window st recorded =
     (length (last_twelve st) = 12 \<and> lt_index st < 12
      \<and> rotate (lt_index st) (last_twelve st)
          = drop (length recorded) (replicate 12 0 @ map defect_code recorded))"

section \<open>Auxiliary facts\<close>

lemma neg_index_1: "neg_index h 1 = (if h = [] then None else Some (last h))"
  by (cases h rule: rev_cases) (simp_all add: neg_index_def)

lemma neg_index_Suc0: "neg_index h (Suc 0) = (if h = [] then None else Some (last h))"
  using neg_index_1[of h] by simp

lemma count_list_replicate: "count_list (replicate n x) y = (if x = y then n else 0)"
  by (induction n) auto

lemma count_CD: "count_list h C + count_list h D = length h"
proof (induction h)
  case Nil
  show ?case by simp
next
  case (Cons a h)
  then show ?case by (cases a) simp_all
qed

text \<open>One more round of a match: the rounds before it, then one call of the strategy.\<close>

lemma play_from_snoc:
  "play_from S d st own opp (xs @ [x]) =
     (case play_from S d st own opp xs of
        None \<Rightarrow> None
      | Some (own', st') \<Rightarrow>
          (case S st' own' (opp @ xs) (d (length own')) of
             None \<Rightarrow> None
           | Some (a, st'') \<Rightarrow> Some (own' @ [a], st'')))"
  by (induction xs arbitrary: st own opp) (auto split: option.splits)

lemma play_snoc:
  "play S st (xs @ [x]) d =
     (case play S st xs d of
        None \<Rightarrow> None
      | Some (own', st') \<Rightarrow>
          (case S st' own' xs (d (length own')) of
             None \<Rightarrow> None
           | Some (a, st'') \<Rightarrow> Some (own' @ [a], st'')))"
  by (simp add: play_def play_from_snoc cong: option.case_cong)

section \<open>The first round\<close>

text \<open>
  Claim C4. On round 1, when both histories are empty, every strategy of the file
  returns a fixed action from its initial attributes, whatever the random draw \<open>r\<close>
  and whatever the game: Tester and Gladstein defect; Champion, Eatherley,
  Tranquilizer, MoreGrofman, Kluepfel, Borufsen, Cave, WmAdams, GraaskampKatzen, Weiner
  and Harrington cooperate. The attributes are left as they were. As \<open>r\<close> is
  arbitrary, two runs with different random sources open with the same action.
\<close>

theorem first_round_fixed:
  "champion_strategy [] [] r = Some C
   \<and> eatherley_strategy [] [] r = Some C
   \<and> tester_strategy tester_init [] [] = Some (D, tester_init)
   \<and> gladstein_strategy gladstein_init [] [] = Some (D, gladstein_init)
   \<and> tranquilizer_strategy g tranquilizer_init [] [] r = Some (C, tranquilizer_init)
   \<and> moregrofman_strategy [] [] = Some C
   \<and> kluepfel_strategy kluepfel_init [] [] r = Some (Some C, kluepfel_init)
   \<and> borufsen_strategy borufsen_init [] [] = Some (C, borufsen_init)
   \<and> cave_strategy [] [] r = Some C
   \<and> wmadams_strategy [] [] r = Some C
   \<and> graaskampkatzen_strategy g' graaskampkatzen_init [] [] = Some (C, graaskampkatzen_init)
   \<and> weiner_strategy weiner_init [] [] = Some (C, weiner_init)
   \<and> harrington_strategy harrington_init [] [] r = Some (C, harrington_init)"
  by (simp add: champion_strategy_def eatherley_strategy_def tester_strategy_def
      gladstein_strategy_def tranquilizer_strategy_def moregrofman_strategy_def
      kluepfel_strategy_def kluepfel_update_def randomness_check_due_def kluepfel_respond_def
      borufsen_strategy_def cave_strategy_def wmadams_strategy_def
      graaskampkatzen_strategy_def graaskampkatzen_init_def weiner_strategy_def
      harrington_strategy_def)

section \<open>Champion: the three phases\<close>

text \<open>
  Claim C7. With histories of equal length (round t has t - 1 moves in each), Champion
  cooperates on rounds 1 to 10 (fewer than 10 moves played), returns the opponent's
  previous move on rounds 11 to 25, and from round 26 on always returns an action,
  which is Defect only if the opponent's previous move was Defect and the opponent's
  defection proportion is at least 0.4 (its cooperation rate at most 0.6); in every
  other case it is Cooperate.
\<close>

theorem champion_phases:
  assumes "length opp = length own"
  shows "(length own < 10 \<longrightarrow> champion_strategy own opp r = Some C)
       \<and> (10 \<le> length own \<and> length own < 25 \<longrightarrow> champion_strategy own opp r = Some (last opp))
       \<and> (25 \<le> length own \<longrightarrow>
            (\<exists>a. champion_strategy own opp r = Some a)
            \<and> (champion_strategy own opp r = Some D \<longrightarrow>
                 last opp = D
                 \<and> real (defections opp) / real (length opp) \<ge> 0.4
                 \<and> real (cooperations opp) / real (length opp) \<le> 0.6)
            \<and> (\<not> (last opp = D \<and> real (defections opp) / real (length opp) \<ge> 0.4) \<longrightarrow>
                 champion_strategy own opp r = Some C))"
proof -
  have early: "length own < 10 \<Longrightarrow> champion_strategy own opp r = Some C"
    by (simp add: champion_strategy_def Let_def)
  have tft: "10 \<le> length own \<Longrightarrow> length own < 25 \<Longrightarrow> champion_strategy own opp r = Some (last opp)"
    using assms by (auto simp add: champion_strategy_def Let_def neg_index_Suc0)
  have coop: "real (cooperations opp) / real (length opp) = 1 - real (defections opp) / real (length opp)"
    if "opp \<noteq> []"
  proof -
    have "real (cooperations opp) + real (defections opp) = real (length opp)"
      using count_CD[of opp] unfolding cooperations_def defections_def
      by (metis of_nat_add)
    moreover have "real (length opp) > 0" using that by simp
    ultimately show ?thesis by (simp add: field_simps)
  qed
  have late: "champion_strategy own opp r =
      (if last opp = D \<and> real (defections opp) / real (length opp) \<ge> max 0.4 r then Some D else Some C)"
    if "25 \<le> length own"
    using that assms by (auto simp add: champion_strategy_def Let_def neg_index_Suc0 py_div_def)
  show ?thesis
  proof (intro conjI impI)
    assume h: "25 \<le> length own"
    then have ne: "opp \<noteq> []" using assms by auto
    show "\<exists>a. champion_strategy own opp r = Some a" using late[OF h] by auto
    { assume "champion_strategy own opp r = Some D"
      then have l: "last opp = D" and p: "real (defections opp) / real (length opp) \<ge> max 0.4 r"
        using late[OF h] by (auto split: if_splits)
      show "last opp = D" by (rule l)
      show "real (defections opp) / real (length opp) \<ge> 0.4" using p by simp
      then show "real (cooperations opp) / real (length opp) \<le> 0.6" using coop[OF ne] by simp
    }
    { assume "\<not> (last opp = D \<and> real (defections opp) / real (length opp) \<ge> 0.4)"
      then show "champion_strategy own opp r = Some C" using late[OF h] by auto
    }
  qed (use early tft in auto)
qed

text \<open>The three phases at concrete histories: round 10, round 25 after a defection,
  round 26 against a defector (Defect) and round 26 after a cooperation (Cooperate).\<close>

theorem champion_phases_witness:
  "champion_strategy (replicate 9 D) (replicate 9 D) 0 = Some C
   \<and> champion_strategy (replicate 24 C) (replicate 23 C @ [D]) 0 = Some D
   \<and> champion_strategy (replicate 25 C) (replicate 25 D) (1 / 2) = Some D
   \<and> last (replicate 25 D) = D
   \<and> real (defections (replicate 25 D)) / real (length (replicate 25 D :: action list)) \<ge> 0.4
   \<and> champion_strategy (replicate 25 C) (replicate 24 D @ [C]) 0 = Some C"
  using champion_phases [of "replicate 9 D" "replicate 9 D" 0]
    champion_phases [of "replicate 23 C @ [D]" "replicate 24 C" 0]
    champion_phases [of "replicate 25 D" "replicate 25 C" "1 / 2"]
    champion_phases [of "replicate 24 D @ [C]" "replicate 25 C" 0]
  by (simp add: champion_strategy_def Let_def neg_index_Suc0 py_div_def defections_def
      count_list_replicate)

section \<open>GraaskampKatzen: Defect mode is absorbing\<close>

lemma graaskampkatzen_defect_step:
  "g_mode st = Defect \<Longrightarrow> graaskampkatzen_strategy g st own opp = Some (D, st)"
  by (simp add: graaskampkatzen_strategy_def)

lemma graaskampkatzen_defect_play:
  "g_mode st = Defect \<Longrightarrow>
   play_from (\<lambda>s own opp r. graaskampkatzen_strategy g s own opp) d st own opp xs
     = Some (own @ replicate (length xs) D, st)"
proof (induction xs arbitrary: own opp)
  case Nil
  then show ?case by simp
next
  case (Cons x xs)
  then show ?case
    by (simp add: graaskampkatzen_defect_step replicate_app_Cons_same)
qed

text \<open>
  Claim C8. Once a call of GraaskampKatzen's strategy has left the mode at Defect (the
  call that fails a score checkpoint, or any later one), that call returned Defect,
  every later call returns Defect and leaves the attributes as they are, whatever the
  histories and the game, so does every continuation of the match, round after round;
  and \<open>update_score\<close>, the only other operation of the class, never changes the mode.
\<close>

theorem graaskampkatzen_defect_absorbing:
  assumes "graaskampkatzen_strategy g st own opp = Some (a, st')" and "g_mode st' = Defect"
  shows "a = D
       \<and> graaskampkatzen_strategy g st' own' opp' = Some (D, st')
       \<and> play_from (\<lambda>s own opp r. graaskampkatzen_strategy g s own opp) d st' own' opp' xs
           = Some (own' @ replicate (length xs) D, st')
       \<and> (update_score g s own'' opp'' = Some s' \<longrightarrow> g_mode s' = g_mode s)"
proof -
  have "a = D"
    using assms
    by (auto simp add: graaskampkatzen_strategy_def Let_def update_score_def
        split: if_splits bind_splits)
  moreover have "update_score g s own'' opp'' = Some s' \<longrightarrow> g_mode s' = g_mode s"
    by (auto simp add: update_score_def split: bind_splits)
  ultimately show ?thesis
    using assms(2) by (simp add: graaskampkatzen_defect_step graaskampkatzen_defect_play)
qed

text \<open>The checkpoint of move 11 failed with a score of 9 (one sucker's payoff, then nine
  mutual defections), and the three rounds after it.\<close>

theorem graaskampkatzen_defect_absorbing_witness:
  "graaskampkatzen_strategy default_game \<lparr>own_score = 8, g_mode = Normal\<rparr>
       (C # replicate 9 D) (replicate 10 D) = Some (D, \<lparr>own_score = 9, g_mode = Defect\<rparr>)
   \<and> graaskampkatzen_strategy default_game \<lparr>own_score = 9, g_mode = Defect\<rparr>
       (C # replicate 10 D) (replicate 10 D @ [C]) = Some (D, \<lparr>own_score = 9, g_mode = Defect\<rparr>)
   \<and> play_from (\<lambda>s own opp r. graaskampkatzen_strategy default_game s own opp) (\<lambda>k. 0)
       \<lparr>own_score = 9, g_mode = Defect\<rparr> (C # replicate 10 D) (replicate 10 D @ [C]) [C, C, C]
       = Some ((C # replicate 10 D) @ replicate (length [C, C, C]) D, \<lparr>own_score = 9, g_mode = Defect\<rparr>)
   \<and> update_score default_game \<lparr>own_score = 9, g_mode = Defect\<rparr> [D] [C]
       = Some \<lparr>own_score = 14, g_mode = Defect\<rparr>"
proof -
  have call: "graaskampkatzen_strategy default_game \<lparr>own_score = 8, g_mode = Normal\<rparr>
       (C # replicate 9 D) (replicate 10 D) = Some (D, \<lparr>own_score = 9, g_mode = Defect\<rparr>)"
    by (simp add: graaskampkatzen_strategy_def update_score_def neg_index_Suc0)
  have upd: "update_score default_game \<lparr>own_score = 9, g_mode = Defect\<rparr> [D] [C]
       = Some \<lparr>own_score = 14, g_mode = Defect\<rparr>"
    by (simp add: update_score_def neg_index_Suc0)
  show ?thesis
    using call upd
      graaskampkatzen_defect_absorbing [OF call, of "C # replicate 10 D" "replicate 10 D @ [C]"
        "\<lambda>k. 0" "[C, C, C]" "\<lparr>own_score = 9, g_mode = Defect\<rparr>" "[D]" "[C]"
        "\<lparr>own_score = 14, g_mode = Defect\<rparr>"]
    by (simp del: play_from.simps)
qed

section \<open>Kluepfel: the strategy always returns an action\<close>

lemma kluepfel_respond_total: "\<exists>a. kluepfel_respond opp r = Some a"
proof -
  have cascade: "\<exists>a. (if P then Some x
            else if Q then (if R1 then Some x else Some (flip x))
            else if x = C then (if R2 then Some x else Some (flip x))
            else if x = D then (if R3 then Some x else Some (flip x))
            else None) = Some a" for P Q R1 R2 R3 and x :: action
    by (cases x) auto
  show ?thesis
    unfolding kluepfel_respond_def Let_def by (rule cascade)
qed

text \<open>
  Claim C9. The final cascade of Kluepfel's strategy is exhaustive: for every opponent
  history and every draw it yields an action, never the \<^verbatim>\<open>None\<close> of a function that
  reaches its end. At the public interface, where both histories have the same length,
  the whole strategy neither raises nor falls off its end: it returns an action, with
  the updated counters, for all attributes, histories and draws.
\<close>

theorem kluepfel_total:
  "(\<exists>a. kluepfel_respond opp r = Some a)
   \<and> (length opp = length own \<longrightarrow> (\<exists>a st'. kluepfel_strategy st own opp r = Some (Some a, st')))"
proof (intro conjI impI)
  show resp: "\<exists>a. kluepfel_respond opp r = Some a" by (rule kluepfel_respond_total)
  assume len: "length opp = length own"
  have "\<exists>st1. kluepfel_update st own opp = Some st1"
    using len by (auto simp add: kluepfel_update_def neg_index_def)
  then obtain st1 where u: "kluepfel_update st own opp = Some st1" ..
  from resp obtain a where a: "kluepfel_respond opp r = Some a" ..
  show "\<exists>a st'. kluepfel_strategy st own opp r = Some (Some a, st')"
    using u a by (simp add: kluepfel_strategy_def)
qed

theorem kluepfel_total_witness:
  "kluepfel_respond [C, D] (1 / 2) = Some D
   \<and> kluepfel_strategy kluepfel_init [C, C] [C, D] (1 / 2)
       = Some (Some D, kluepfel_init\<lparr>k_cc_counts := 1\<rparr>)"
  using kluepfel_total [of "[C, D]" "1 / 2" "[C, C]" kluepfel_init]
  by (simp add: kluepfel_strategy_def kluepfel_update_def kluepfel_respond_def neg_index_def
      randomness_check_due_def kluepfel_init_def)

section \<open>Tester: the opening against a cooperator\<close>

lemma tester_step:
  fixes f :: "nat \<Rightarrow> action"
  defines "f \<equiv> (\<lambda>k. if k = 0 then D else if k \<le> 2 then C else if odd k then D else C)"
  shows "tester_strategy tester_init (map f [0..<n]) (replicate n C) = Some (f n, tester_init)"
proof -
  consider "n = 0" | "n = 1 \<or> n = 2" | "n \<ge> 3" by linarith
  then show ?thesis
  proof cases
    case 1
    then show ?thesis by (simp add: tester_strategy_def f_def)
  next
    case 2
    then show ?thesis
      by (auto simp add: tester_strategy_def f_def tester_init_def neg_index_Suc0)
  next
    case 3
    then obtain m where m: "n = Suc m" and m2: "m \<ge> 2" by (cases n) auto
    have "neg_index (map f [0..<n]) (Suc 0) = Some (f m)"
      using m by (simp add: neg_index_Suc0)
    moreover have "flip (f m) = f n"
      using m m2 by (auto simp add: f_def)
    ultimately show ?thesis
      using 3 by (simp add: tester_strategy_def tester_init_def neg_index_Suc0)
  qed
qed

text \<open>
  Claim C10. As long as the opponent has not defected (the flag \<open>is_TFT\<close> is still
  down and the opponent's last move is Cooperate), Tester cooperates on rounds 2 and 3,
  when its own history has length 1 or 2. Against an opponent that cooperates on every
  round, a match of any length \<open>n\<close> runs without error and Tester plays D, C, C and then
  alternates D, C, D, C, ... from round 4 on (round k + 1 has index k: Defect on the odd
  indices from 3 on), the flag never raised.
\<close>

theorem tester_opening:
  "(\<not> is_TFT st \<and> opp \<noteq> [] \<and> last opp = C \<and> length own \<in> {1, 2}
      \<longrightarrow> tester_strategy st own opp = Some (C, st))
   \<and> play (\<lambda>st own opp r. tester_strategy st own opp) tester_init (replicate n C) d
       = Some (map (\<lambda>k. if k = 0 then D else if k \<le> 2 then C else if odd k then D else C) [0..<n],
               tester_init)"
proof
  show "\<not> is_TFT st \<and> opp \<noteq> [] \<and> last opp = C \<and> length own \<in> {1, 2}
      \<longrightarrow> tester_strategy st own opp = Some (C, st)"
    by (auto simp add: tester_strategy_def neg_index_Suc0)
  show "play (\<lambda>st own opp r. tester_strategy st own opp) tester_init (replicate n C) d
       = Some (map (\<lambda>k. if k = 0 then D else if k \<le> 2 then C else if odd k then D else C) [0..<n],
               tester_init)"
  proof (induction n)
    case 0
    show ?case by (simp add: play_def)
  next
    case (Suc n)
    have "replicate (Suc n) C = replicate n C @ [C]" by (simp add: replicate_append_same)
    then show ?case using Suc tester_step[of n] by (simp add: play_snoc)
  qed
qed

theorem tester_opening_witness:
  "tester_strategy tester_init [D] [C] = Some (C, tester_init)
   \<and> tester_strategy tester_init [D, C] [C, C] = Some (C, tester_init)
   \<and> play (\<lambda>st own opp r. tester_strategy st own opp) tester_init (replicate 6 C) (\<lambda>k. 0)
       = Some ([D, C, C, D, C, D], tester_init)"
  using tester_opening [of tester_init "[C]" "[D]" 6 "\<lambda>k. 0"]
    tester_opening [of tester_init "[C, C]" "[D, C]" 6 "\<lambda>k. 0"]
  by (simp add: tester_init_def upt_rec)

section \<open>Tranquilizer: the cool-down after a good defection\<close>

lemma update_state_from_1:
  assumes "num_turns_after_good_defection st = 1" and "own \<noteq> []" and "opp \<noteq> []"
  shows "\<exists>st'. update_state st own opp = Some st' \<and> num_turns_after_good_defection st' = 2"
  using assms by (simp add: update_state_def neg_index_Suc0 Let_def)

lemma update_state_from_2:
  assumes "num_turns_after_good_defection st = 2" and "own \<noteq> []" and "opp \<noteq> []"
  shows "\<exists>st'. update_state st own opp = Some st' \<and> num_turns_after_good_defection st' = 0"
  using assms by (simp add: update_state_def neg_index_Suc0 Let_def)

lemma tranquilizer_round_5:
  "tranquilizer_strategy default_game tranquilizer_init [C, C, C, C] [C, C, C, C] (199 / 200)
     = Some (D, tranquilizer_init\<lparr>num_turns_after_good_defection := 1\<rparr>)"
  by (simp add: tranquilizer_strategy_def update_state_def neg_index_Suc0 Let_def
      tranquilizer_init_def compute_final_score_def power2_eq_square)

text \<open>
  Claim C3, as the spec states it, fails: the counter forces Cooperate on one round, not
  two. Against a cooperator, with the default game and the draw 0.995 on round 5 (0.9 on
  the others), Tranquilizer defects on round 5 under the branch of an average payoff of
  at least 2.25 (12 points over 5), which sets the counter to 1; it cooperates on round
  6; on round 7 the counter is back to 0, the average is 20 / 7, the probability is
  about 0.87 and the draw 0.9 makes it defect again.
\<close>

theorem tranquilizer_second_round_counterexample:
  "play (tranquilizer_strategy default_game) tranquilizer_init (replicate 5 C)
        (\<lambda>k. if k = 4 then 199 / 200 else 9 / 10)
     = Some ([C, C, C, C, D], tranquilizer_init\<lparr>num_turns_after_good_defection := 1\<rparr>)
   \<and> play (tranquilizer_strategy default_game) tranquilizer_init (replicate 7 C)
        (\<lambda>k. if k = 4 then 199 / 200 else 9 / 10)
     = Some ([C, C, C, C, D, C, D],
         \<lparr>num_turns_after_good_defection = 1,
          opponent_consecutive_defections = 0,
          one_turn_after_good_defection_ratio = 5,
          two_turns_after_good_defection_ratio = 3 / 2,
          one_turn_after_good_defection_ratio_count = 2,
          two_turns_after_good_defection_ratio_count = 2\<rparr>)"
  by (simp add: play_def eval_nat_numeral tranquilizer_strategy_def update_state_def
      neg_index_Suc0 Let_def tranquilizer_init_def compute_final_score_def power2_eq_square
      cooperations_def)

text \<open>
  Claim C3, amended. Whenever a call of Tranquilizer's strategy returns Defect with the
  cool-down counter \<open>num_turns_after_good_defection\<close> at 1 (only the branch of an
  average payoff of at least 2.25 sets it), the call of the next round returns
  Cooperate, whatever the opponent's move \<open>x\<close> and the draw \<open>r1\<close>, and leaves
  the counter at 2; on the round after that, \<open>update_state\<close> resets the counter to 0
  before the decision, so the forced cooperation lasts one round.
\<close>

theorem tranquilizer_cooldown:
  assumes "tranquilizer_strategy g st own opp r = Some (D, st1)"
    and "num_turns_after_good_defection st1 = 1"
  shows "\<exists>st2. tranquilizer_strategy g st1 (own @ [D]) (opp @ [x]) r1 = Some (C, st2)
           \<and> num_turns_after_good_defection st2 = 2
           \<and> (\<exists>st3. update_state st2 (own @ [D, C]) (opp @ [x, y]) = Some st3
                  \<and> num_turns_after_good_defection st3 = 0)"
proof -
  obtain st2 where u: "update_state st1 (own @ [D]) (opp @ [x]) = Some st2"
    and n2: "num_turns_after_good_defection st2 = 2"
    using update_state_from_1[OF assms(2), of "own @ [D]" "opp @ [x]"] by auto
  have "tranquilizer_strategy g st1 (own @ [D]) (opp @ [x]) r1 = Some (C, st2)"
    using u n2 by (simp add: tranquilizer_strategy_def)
  moreover have "\<exists>st3. update_state st2 (own @ [D, C]) (opp @ [x, y]) = Some st3
                  \<and> num_turns_after_good_defection st3 = 0"
    using update_state_from_2[OF n2, of "own @ [D, C]" "opp @ [x, y]"] by simp
  ultimately show ?thesis using n2 by blast
qed

theorem tranquilizer_cooldown_witness:
  "tranquilizer_strategy default_game tranquilizer_init [C, C, C, C] [C, C, C, C] (199 / 200)
     = Some (D, tranquilizer_init\<lparr>num_turns_after_good_defection := 1\<rparr>)
   \<and> (\<exists>st2. tranquilizer_strategy default_game
               (tranquilizer_init\<lparr>num_turns_after_good_defection := 1\<rparr>)
               ([C, C, C, C] @ [D]) ([C, C, C, C] @ [C]) (999 / 1000) = Some (C, st2)
           \<and> num_turns_after_good_defection st2 = 2
           \<and> (\<exists>st3. update_state st2 ([C, C, C, C] @ [D, C]) ([C, C, C, C] @ [C, D]) = Some st3
                  \<and> num_turns_after_good_defection st3 = 0))"
  using tranquilizer_round_5
    tranquilizer_cooldown [OF tranquilizer_round_5, of C "999 / 1000" D]
  by (simp add: tranquilizer_init_def)

section \<open>Borufsen against a defector\<close>

lemma replicate_26:
  "replicate 26 x = [x, x, x, x, x, x, x, x, x, x, x, x, x, x, x, x, x, x, x, x, x, x, x, x, x, x]"
  by (simp add: eval_nat_numeral)

lemma replicate_25:
  "replicate 25 x = [x, x, x, x, x, x, x, x, x, x, x, x, x, x, x, x, x, x, x, x, x, x, x, x, x]"
  by (simp add: eval_nat_numeral)

lemma replicate_51: "replicate 51 x = replicate 26 x @ replicate 25 x"
  by (simp add: replicate_add[symmetric])

text \<open>
  Claim C5. Against an opponent that defects on every round, Borufsen's first 26 rounds
  leave the initial attributes: no cooperation recorded. On round 27 the response update
  records nothing, the cooperation count \<open>cd_counts + cc_counts\<close> is 0, fewer than 3,
  and the mode evaluation enters Defect mode (without the early return of the special
  case). The match of 51 rounds runs without error; Borufsen's actions on rounds 27 to
  51 are all Defect and the mode is still Defect after round 51, the last round before
  the evaluation of round 52.
\<close>

theorem borufsen_defect_mode_against_defector:
  "play (\<lambda>st own opp r. borufsen_strategy st own opp) borufsen_init (replicate 26 D) d
     = Some ([C, D, D, D, C, D, D, D, C, D, D, D, C, D, D, D, C, D, D, D, C, D, D, D, C, D],
             borufsen_init)
   \<and> borufsen_update borufsen_init
        [C, D, D, D, C, D, D, D, C, D, D, D, C, D, D, D, C, D, D, D, C, D, D, D, C, D]
        (replicate 26 D) = Some borufsen_init
   \<and> b_cd_counts borufsen_init + b_cc_counts borufsen_init < 3
   \<and> borufsen_mode_change borufsen_init 27 = (borufsen_init\<lparr>b_mode := Defect\<rparr>, False)
   \<and> play (\<lambda>st own opp r. borufsen_strategy st own opp) borufsen_init (replicate 51 D) d
     = Some ([C, D, D, D, C, D, D, D, C, D, D, D, C, D, D, D, C, D, D, D, C, D, D, D, C, D]
               @ replicate 25 D,
             borufsen_init\<lparr>b_mode := Defect\<rparr>)"
  unfolding replicate_51 replicate_26 replicate_25
  by (simp add: play_def borufsen_strategy_def borufsen_update_def borufsen_mode_change_def
      borufsen_proceed_def borufsen_try_return_def neg_index_def Let_def borufsen_init_def)

section \<open>Weiner: the lagged window of the defective override\<close>

lemma rotate_less: "i < length b \<Longrightarrow> rotate i b = drop i b @ take i b"
  by (simp add: rotate_drop_take)

text \<open>Writing the oldest slot of a ring buffer and advancing the index drops the oldest
  entry of the window and appends the new one.\<close>

lemma rotate_ring_write:
  assumes "i < length b"
  shows "rotate (Suc i mod length b) (b[i := v]) = tl (rotate i b) @ [v]"
proof -
  have "rotate i b = (b ! i # drop (Suc i) b) @ take i b"
    using assms by (simp add: rotate_less Cons_nth_drop_Suc)
  then have rhs: "tl (rotate i b) @ [v] = drop (Suc i) b @ take i b @ [v]" by simp
  show ?thesis
  proof (cases "Suc i < length b")
    case True
    have "rotate (Suc i) (b[i := v]) = drop (Suc i) (b[i := v]) @ take (Suc i) (b[i := v])"
      using True rotate_less[of "Suc i" "b[i := v]"] by simp
    also have "drop (Suc i) (b[i := v]) = drop (Suc i) b" by simp
    also have "take (Suc i) (b[i := v]) = take i b @ [v]"
      using assms by (simp add: take_Suc_conv_app_nth)
    finally show ?thesis using True rhs by simp
  next
    case False
    then have e: "Suc i = length b" using assms by simp
    have "b[i := v] = take i b @ v # drop (Suc i) b"
      using assms by (rule upd_conv_take_nth_drop)
    then have "b[i := v] = take i b @ [v]" using e by simp
    then show ?thesis using e rhs by simp
  qed
qed

lemma sum_list_rotate_less: "i < length b \<Longrightarrow> sum_list (rotate i b) = sum_list (b :: nat list)"
proof -
  assume "i < length b"
  then have "sum_list (rotate i b) = sum_list (drop i b) + sum_list (take i b)"
    by (simp add: rotate_less)
  also have "\<dots> = sum_list b"
    by (metis add.commute append_take_drop_id sum_list_append)
  finally show ?thesis .
qed

lemma sum_list_defect_code: "sum_list (map defect_code xs) = count_list xs D"
proof (induction xs)
  case Nil
  show ?case by simp
next
  case (Cons a xs)
  then show ?case by (cases a) simp_all
qed

lemma weiner_window_sum:
  assumes "weiner_window st recorded"
  shows "sum_list (last_twelve st) = count_list (drop (length recorded - 12) recorded) D"
proof -
  from assms have idx: "lt_index st < length (last_twelve st)"
    and rot: "rotate (lt_index st) (last_twelve st)
                = drop (length recorded) (replicate 12 0 @ map defect_code recorded)"
    unfolding weiner_window_def by simp_all
  have "sum_list (last_twelve st) = sum_list (rotate (lt_index st) (last_twelve st))"
    using idx by (simp only: sum_list_rotate_less)
  also have "\<dots> = sum_list (drop (length recorded) (replicate 12 0 @ map defect_code recorded))"
    by (simp only: rot)
  also have "\<dots> = sum_list (map defect_code (drop (length recorded - 12) recorded))"
    by (simp add: drop_map)
  finally show ?thesis by (simp add: sum_list_defect_code)
qed

lemma weiner_window_init: "weiner_window weiner_init []"
  by (simp add: weiner_window_def weiner_init_def)

lemma weiner_update_window:
  assumes "weiner_window st (butlast (butlast opp))"
  shows "\<exists>st1. weiner_update st opp = Some st1 \<and> weiner_window st1 (butlast opp)
            \<and> forgive_flag st1 = forgive_flag st \<and> grudge st1 = grudge st
            \<and> defect_padding st1 = defect_padding st"
proof (cases "length opp \<ge> 2")
  case False
  then have "butlast opp = []" by (cases opp) (auto simp add: not_le less_Suc_eq)
  then show ?thesis using assms False by (simp add: weiner_update_def)
next
  case True
  define recorded where "recorded = butlast (butlast opp)"
  define y where "y = last (butlast opp)"
  define x where "x = last opp"
  from True have "opp \<noteq> []" and "butlast opp \<noteq> []"
    by (auto simp add: length_0_conv[symmetric] simp del: length_0_conv)
  then have "opp = butlast opp @ [x]" and "butlast opp = recorded @ [y]"
    by (simp_all add: x_def y_def recorded_def)
  then have opp: "opp = recorded @ [y, x]" by (metis append_Cons append_Nil append_assoc)
  let ?b = "last_twelve st" and ?i = "lt_index st"
  from assms opp have len: "length ?b = 12" and idx: "?i < 12"
    and rot: "rotate ?i ?b = drop (length recorded) (replicate 12 0 @ map defect_code recorded)"
    by (simp_all add: weiner_window_def butlast_append)
  define b' where "b' = ?b[?i := defect_code y]"
  have upd: "weiner_update st opp = Some (st\<lparr>last_twelve := b', lt_index := (?i + 1) mod 12\<rparr>)"
    using opp len idx by (cases y) (simp_all add: weiner_update_def neg_index_def b'_def nth_append)
  have "rotate (Suc ?i mod length ?b) b' = tl (rotate ?i ?b) @ [defect_code y]"
    unfolding b'_def using idx len by (intro rotate_ring_write) simp
  also have "tl (rotate ?i ?b) = drop (Suc (length recorded)) (replicate 12 0 @ map defect_code recorded)"
    by (simp only: rot tl_drop drop_Suc)
  finally have "rotate ((?i + 1) mod 12) b'
      = drop (length (recorded @ [y])) (replicate 12 0 @ map defect_code (recorded @ [y]))"
    using len by simp
  then have "weiner_window (st\<lparr>last_twelve := b', lt_index := (?i + 1) mod 12\<rparr>) (butlast opp)"
    using len opp by (simp add: weiner_window_def b'_def butlast_append)
  then show ?thesis using upd by simp
qed

lemma weiner_strategy_window:
  assumes "weiner_window st (butlast (butlast opp))"
  shows "\<exists>a st'. weiner_strategy st own opp = Some (a, st') \<and> weiner_window st' (butlast opp)
           \<and> (opp \<noteq> [] \<longrightarrow>
                a = (if 5 \<le> sum_list (last_twelve st') then D
                     else if forgive_flag st \<and> grudge st < length own + 1 \<and> last opp = D then C
                     else last opp))"
proof (cases "opp = []")
  case True
  then show ?thesis using assms by (simp add: weiner_strategy_def)
next
  case False
  obtain st1 where u: "weiner_update st opp = Some st1" and w: "weiner_window st1 (butlast opp)"
    and f: "forgive_flag st1 = forgive_flag st" and g: "grudge st1 = grudge st"
    using weiner_update_window[OF assms] by blast
  show ?thesis
    using False u w f g
    by (auto simp add: weiner_strategy_def neg_index_Suc0 Let_def weiner_try_return_def
        weiner_window_def)
qed

text \<open>Every match runs without error, and after it the buffer holds the opponent's moves
  but the last two: the last call saw all but the last, and recorded all but the last
  of those.\<close>

lemma weiner_play_window:
  "\<exists>own st. play (\<lambda>st own opp r. weiner_strategy st own opp) weiner_init xs d = Some (own, st)
      \<and> weiner_window st (butlast (butlast xs))"
proof (induction xs rule: rev_induct)
  case Nil
  show ?case by (simp add: play_def weiner_window_init)
next
  case (snoc x xs)
  then obtain own st
    where p: "play (\<lambda>st own opp r. weiner_strategy st own opp) weiner_init xs d = Some (own, st)"
      and w: "weiner_window st (butlast (butlast xs))" by blast
  obtain a st' where "weiner_strategy st own xs = Some (a, st')" and "weiner_window st' (butlast xs)"
    using weiner_strategy_window[OF w] by blast
  then show ?case using p by (simp add: play_snoc)
qed

text \<open>
  Claim C6. Let \<open>opp\<close> be the opponent's moves of rounds 1 to t - 1, for any round
  t of at least 2 and any opponent. The match so far runs without error, and in the call
  of round t, once the buffer is updated, the sum of \<open>last_twelve\<close> that the override
  tests is the number of defections among the last twelve of the opponent's moves up to
  round t - 2 (\<open>butlast opp\<close>: the most recent move is not counted). The action
  returned is Defect when that count is at least 5, also when forgiveness chose
  Cooperate; otherwise it is the choice of the round: Cooperate when the raised
  \<open>forgive_flag\<close> forgives a defection, else the opponent's last move.
\<close>

theorem weiner_lagged_override:
  assumes "opp \<noteq> []"
  shows "\<exists>own st a st'.
           play (\<lambda>st own opp r. weiner_strategy st own opp) weiner_init opp d = Some (own, st)
           \<and> weiner_strategy st own opp = Some (a, st')
           \<and> sum_list (last_twelve st') = count_list (drop (length opp - 13) (butlast opp)) D
           \<and> a = (if 5 \<le> count_list (drop (length opp - 13) (butlast opp)) D then D
                  else if forgive_flag st \<and> grudge st < length own + 1 \<and> last opp = D then C
                  else last opp)"
proof -
  obtain own st
    where p: "play (\<lambda>st own opp r. weiner_strategy st own opp) weiner_init opp d = Some (own, st)"
      and w: "weiner_window st (butlast (butlast opp))"
    using weiner_play_window by blast
  obtain a st' where s: "weiner_strategy st own opp = Some (a, st')"
    and w': "weiner_window st' (butlast opp)"
    and a: "a = (if 5 \<le> sum_list (last_twelve st') then D
                 else if forgive_flag st \<and> grudge st < length own + 1 \<and> last opp = D then C
                 else last opp)"
    using weiner_strategy_window[OF w, of own] assms by blast
  have "sum_list (last_twelve st') = count_list (drop (length (butlast opp) - 12) (butlast opp)) D"
    using w' by (rule weiner_window_sum)
  then have c: "sum_list (last_twelve st') = count_list (drop (length opp - 13) (butlast opp)) D"
    by simp
  show ?thesis using p s a c by simp
qed

text \<open>Round 8 after the opponent's moves D, D, D, D, D, C, D: the flag is raised and
  forgiveness chooses Cooperate, the five defections of rounds 1 to 6 force Defect.\<close>

theorem weiner_lagged_override_witness:
  "play (\<lambda>st own opp r. weiner_strategy st own opp) weiner_init [D, D, D, D, D, C, D] (\<lambda>k. 0)
     = Some ([C, D, D, D, D, D, D],
         \<lparr>forgive_flag = True, grudge = 0, defect_padding = 0,
          last_twelve = [1, 1, 1, 1, 1, 0, 0, 0, 0, 0, 0, 0], lt_index = 5\<rparr>)
   \<and> (\<exists>st'. weiner_strategy
          \<lparr>forgive_flag = True, grudge = 0, defect_padding = 0,
           last_twelve = [1, 1, 1, 1, 1, 0, 0, 0, 0, 0, 0, 0], lt_index = 5\<rparr>
          [C, D, D, D, D, D, D] [D, D, D, D, D, C, D] = Some (D, st')
        \<and> sum_list (last_twelve st') = 5)"
proof -
  have p: "play (\<lambda>st own opp r. weiner_strategy st own opp) weiner_init [D, D, D, D, D, C, D] (\<lambda>k. 0)
     = Some ([C, D, D, D, D, D, D],
         \<lparr>forgive_flag = True, grudge = 0, defect_padding = 0,
          last_twelve = [1, 1, 1, 1, 1, 0, 0, 0, 0, 0, 0, 0], lt_index = 5\<rparr>)"
    by code_simp
  have c: "count_list (drop (length [D, D, D, D, D, C, D] - 13) (butlast [D, D, D, D, D, C, D])) D = 5"
    by simp
  obtain own st a st'
    where "play (\<lambda>st own opp r. weiner_strategy st own opp) weiner_init [D, D, D, D, D, C, D] (\<lambda>k. 0)
             = Some (own, st)"
      and "weiner_strategy st own [D, D, D, D, D, C, D] = Some (a, st')"
      and "sum_list (last_twelve st')
             = count_list (drop (length [D, D, D, D, D, C, D] - 13) (butlast [D, D, D, D, D, C, D])) D"
      and "a = (if 5 \<le> count_list (drop (length [D, D, D, D, D, C, D] - 13)
                                    (butlast [D, D, D, D, D, C, D])) D then D
                else if forgive_flag st \<and> grudge st < length own + 1
                        \<and> last [D, D, D, D, D, C, D] = D then C
                else last [D, D, D, D, D, C, D])"
    using weiner_lagged_override [of "[D, D, D, D, D, C, D]" "\<lambda>k. 0"] by blast
  then show ?thesis unfolding c p by auto
qed

section \<open>Kluepfel: the round of the randomness check\<close>

lemma kluepfel_strategy_some:
  assumes "length opp = length own"
  shows "\<exists>a st'. kluepfel_strategy st own opp r = Some (Some a, st')"
proof -
  have "\<exists>st1. kluepfel_update st own opp = Some st1"
    using assms by (auto simp add: kluepfel_update_def neg_index_def)
  then obtain st1 where u: "kluepfel_update st own opp = Some st1" ..
  obtain a where a: "kluepfel_respond opp r = Some a" using kluepfel_respond_total by blast
  show ?thesis using u a by (simp add: kluepfel_strategy_def)
qed

lemma kluepfel_play_some:
  "\<exists>own st. play kluepfel_round st0 moves d = Some (own, st) \<and> length own = length moves"
proof (induction moves rule: rev_induct)
  case Nil
  show ?case by (simp add: play_def)
next
  case (snoc x xs)
  then obtain own st where p: "play kluepfel_round st0 xs d = Some (own, st)"
    and l: "length own = length xs" by blast
  obtain a st' where "kluepfel_strategy st own xs (d (length own)) = Some (Some a, st')"
    using kluepfel_strategy_some[of xs own] l by metis
  then have "kluepfel_round st own xs (d (length own)) = Some (a, st')"
    by (simp add: kluepfel_round_def)
  then show ?case using p l by (simp add: play_snoc)
qed

text \<open>The inequality of the source, with its square roots, in integer arithmetic:
  \<open>a \<ge> (a + b) / 2 - 0.75 * sqrt (a + b)\<close> holds when \<open>b \<le> a\<close> or
  \<open>4 (b - a)\<^sup>2 \<le> 9 (a + b)\<close>.\<close>

lemma sqrt_bound_iff:
  fixes a b :: nat
  shows "real a \<ge> real (a + b) / 2 - 0.75 * sqrt (real (a + b))
           \<longleftrightarrow> b \<le> a \<or> 4 * (b - a)\<^sup>2 \<le> 9 * (a + b)"
proof (cases "b \<le> a")
  case True
  then have "real (a + b) / 2 \<le> real a" by simp
  moreover have "0 \<le> 0.75 * sqrt (real (a + b))" by simp
  ultimately show ?thesis using True by linarith
next
  case False
  define u where "u = (2 / 3) * real (b - a)"
  have u0: "0 \<le> u" by (simp add: u_def)
  have diff: "real (b - a) = real b - real a" using False by simp
  have "real a \<ge> real (a + b) / 2 - 0.75 * sqrt (real (a + b)) \<longleftrightarrow> u \<le> sqrt (real (a + b))"
    unfolding u_def diff by (auto simp add: field_simps)
  also have "\<dots> \<longleftrightarrow> sqrt (u\<^sup>2) \<le> sqrt (real (a + b))" using u0 by simp
  also have "\<dots> \<longleftrightarrow> u\<^sup>2 \<le> real (a + b)" by (rule real_sqrt_le_iff)
  also have "\<dots> \<longleftrightarrow> real (4 * (b - a)\<^sup>2) \<le> real (9 * (a + b))"
    by (simp add: u_def power2_eq_square field_simps)
  also have "\<dots> \<longleftrightarrow> 4 * (b - a)\<^sup>2 \<le> 9 * (a + b)" by (rule of_nat_le_iff)
  finally show ?thesis using False by simp
qed

lemma randomness_inequality_iff:
  "randomness_inequality st \<longleftrightarrow>
     (k_dd_counts st \<le> k_cd_counts st
        \<or> 4 * (k_dd_counts st - k_cd_counts st)\<^sup>2 \<le> 9 * (k_cd_counts st + k_dd_counts st))
     \<and> (k_dc_counts st \<le> k_cc_counts st
        \<or> 4 * (k_dc_counts st - k_cc_counts st)\<^sup>2 \<le> 9 * (k_cc_counts st + k_dc_counts st))"
  unfolding randomness_inequality_def
  using sqrt_bound_iff[of "k_cd_counts st" "k_dd_counts st"]
    sqrt_bound_iff[of "k_cc_counts st" "k_dc_counts st"]
  by (simp add: add.commute)

lemma kluepfel_update_some:
  assumes "length opp = length own"
  shows "\<exists>st1. kluepfel_update st own opp = Some st1"
  using assms by (auto simp add: kluepfel_update_def neg_index_def)

lemma kluepfel_respond_defector: "kluepfel_respond (replicate 26 D) r = Some D"
  unfolding replicate_26 by (simp add: kluepfel_respond_def)

text \<open>
  Claim C2 says that Kluepfel evaluates the randomness inequality at round 27, the first
  round after 26 rounds, and defects when it holds; the docstring says "After 26 turns,
  the player then tries to detect a random player". The code does not: its guard is
  \<^verbatim>\<open>len(self.history) > 26\<close>, and at round 27 the history holds 26 moves.
  With at most 26 moves played, the result of the strategy is that of the response rules
  on the updated counters, whatever the counters and whether the inequality holds or
  not. With more than 26 moves played, from round 28 on, the strategy defects whenever
  the inequality holds on the updated counters. Against an opponent that defects on
  every round, for all draws, the match of 26 rounds runs without error and the call of
  round 27 returns the Defect of the response rules (three equal moves), the inequality
  not consulted.
\<close>

theorem kluepfel_check_guard:
  "(length own \<le> 26 \<longrightarrow>
      kluepfel_strategy st own opp r
        = (case kluepfel_update st own opp of
             None \<Rightarrow> None
           | Some s \<Rightarrow> Some (kluepfel_respond opp r, s)))
   \<and> (26 < length own \<and> kluepfel_update st own opp = Some st1 \<and> randomness_inequality st1 \<longrightarrow>
        kluepfel_strategy st own opp r = Some (Some D, st1))
   \<and> (\<exists>own26 st26 st27.
        play kluepfel_round kluepfel_init (replicate 26 D) d = Some (own26, st26)
        \<and> length own26 = 26
        \<and> kluepfel_update st26 own26 (replicate 26 D) = Some st27
        \<and> kluepfel_strategy st26 own26 (replicate 26 D) r'
            = Some (kluepfel_respond (replicate 26 D) r', st27)
        \<and> kluepfel_respond (replicate 26 D) r' = Some D)"
proof (intro conjI impI)
  show below: "kluepfel_strategy st own opp r
        = (case kluepfel_update st own opp of
             None \<Rightarrow> None
           | Some s \<Rightarrow> Some (kluepfel_respond opp r, s))"
    if "length own \<le> 26" for st own opp r
    using that
    by (simp add: kluepfel_strategy_def randomness_check_due_def split: option.splits)
  show "kluepfel_strategy st own opp r = Some (Some D, st1)"
    if "26 < length own \<and> kluepfel_update st own opp = Some st1 \<and> randomness_inequality st1"
    using that by (simp add: kluepfel_strategy_def randomness_check_due_def)
  obtain own26 st26
    where p: "play kluepfel_round kluepfel_init (replicate 26 D) d = Some (own26, st26)"
      and l: "length own26 = 26"
    using kluepfel_play_some[of kluepfel_init "replicate 26 D" d] by auto
  obtain st27 where u: "kluepfel_update st26 own26 (replicate 26 D) = Some st27"
    using kluepfel_update_some[of "replicate 26 D" own26 st26] l by auto
  have "kluepfel_strategy st26 own26 (replicate 26 D) r'
            = Some (kluepfel_respond (replicate 26 D) r', st27)"
    using below[of own26 st26 "replicate 26 D" r'] l u by simp
  then show "\<exists>own26 st26 st27.
        play kluepfel_round kluepfel_init (replicate 26 D) d = Some (own26, st26)
        \<and> length own26 = 26
        \<and> kluepfel_update st26 own26 (replicate 26 D) = Some st27
        \<and> kluepfel_strategy st26 own26 (replicate 26 D) r'
            = Some (kluepfel_respond (replicate 26 D) r', st27)
        \<and> kluepfel_respond (replicate 26 D) r' = Some D"
    using p l u kluepfel_respond_defector by blast
qed

text \<open>A match in which the round of the check shows in the actions. The opponent plays
  D, D, C, C six times over and then C, C; every draw is 0.5, so that Kluepfel repeats
  the opponent's previous move. At the call of round 27 the updated counters are
  (12, 0, 2, 11) and the inequality holds, yet the strategy cooperates, as the response
  rules say after three cooperations. The opponent cooperates once more; at the call of
  round 28 the counters are (12, 0, 3, 11), the inequality holds and the strategy
  defects, where the response rules say Cooperate.\<close>

theorem kluepfel_check_guard_witness:
  "play kluepfel_round kluepfel_init
      [D, D, C, C, D, D, C, C, D, D, C, C, D, D, C, C, D, D, C, C, D, D, C, C, C, C] (\<lambda>k. 1 / 2)
     = Some ([C, D, D, C, C, D, D, C, C, D, D, C, C, D, D, C, C, D, D, C, C, D, D, C, C, C],
             \<lparr>k_cd_counts = 12, k_dd_counts = 0, k_dc_counts = 1, k_cc_counts = 11\<rparr>)
   \<and> randomness_inequality \<lparr>k_cd_counts = 12, k_dd_counts = 0, k_dc_counts = 2, k_cc_counts = 11\<rparr>
   \<and> kluepfel_strategy \<lparr>k_cd_counts = 12, k_dd_counts = 0, k_dc_counts = 1, k_cc_counts = 11\<rparr>
        [C, D, D, C, C, D, D, C, C, D, D, C, C, D, D, C, C, D, D, C, C, D, D, C, C, C]
        [D, D, C, C, D, D, C, C, D, D, C, C, D, D, C, C, D, D, C, C, D, D, C, C, C, C] (1 / 2)
      = Some (Some C, \<lparr>k_cd_counts = 12, k_dd_counts = 0, k_dc_counts = 2, k_cc_counts = 11\<rparr>)
   \<and> play kluepfel_round kluepfel_init
      [D, D, C, C, D, D, C, C, D, D, C, C, D, D, C, C, D, D, C, C, D, D, C, C, C, C, C] (\<lambda>k. 1 / 2)
     = Some ([C, D, D, C, C, D, D, C, C, D, D, C, C, D, D, C, C, D, D, C, C, D, D, C, C, C, C],
             \<lparr>k_cd_counts = 12, k_dd_counts = 0, k_dc_counts = 2, k_cc_counts = 11\<rparr>)
   \<and> randomness_inequality \<lparr>k_cd_counts = 12, k_dd_counts = 0, k_dc_counts = 3, k_cc_counts = 11\<rparr>
   \<and> kluepfel_respond
        [D, D, C, C, D, D, C, C, D, D, C, C, D, D, C, C, D, D, C, C, D, D, C, C, C, C, C] (1 / 2)
      = Some C
   \<and> kluepfel_strategy \<lparr>k_cd_counts = 12, k_dd_counts = 0, k_dc_counts = 2, k_cc_counts = 11\<rparr>
        [C, D, D, C, C, D, D, C, C, D, D, C, C, D, D, C, C, D, D, C, C, D, D, C, C, C, C]
        [D, D, C, C, D, D, C, C, D, D, C, C, D, D, C, C, D, D, C, C, D, D, C, C, C, C, C] (1 / 2)
      = Some (Some D, \<lparr>k_cd_counts = 12, k_dd_counts = 0, k_dc_counts = 3, k_cc_counts = 11\<rparr>)"
proof -
  let ?opp = "[D, D, C, C, D, D, C, C, D, D, C, C, D, D, C, C, D, D, C, C, D, D, C, C, C, C]"
  let ?own = "[C, D, D, C, C, D, D, C, C, D, D, C, C, D, D, C, C, D, D, C, C, D, D, C, C, C]"
  let ?s26 = "\<lparr>k_cd_counts = 12, k_dd_counts = 0, k_dc_counts = 1, k_cc_counts = 11\<rparr>"
  let ?s27 = "\<lparr>k_cd_counts = 12, k_dd_counts = 0, k_dc_counts = 2, k_cc_counts = 11\<rparr>"
  let ?s28 = "\<lparr>k_cd_counts = 12, k_dd_counts = 0, k_dc_counts = 3, k_cc_counts = 11\<rparr>"
  have p26: "play kluepfel_round kluepfel_init ?opp (\<lambda>k. 1 / 2) = Some (?own, ?s26)"
    by (simp add: play_def kluepfel_round_def kluepfel_strategy_def kluepfel_update_def
        kluepfel_respond_def randomness_check_due_def neg_index_def Let_def kluepfel_init_def)
  have p27: "play kluepfel_round kluepfel_init (?opp @ [C]) (\<lambda>k. 1 / 2) = Some (?own @ [C], ?s27)"
    by (simp add: play_def kluepfel_round_def kluepfel_strategy_def kluepfel_update_def
        kluepfel_respond_def randomness_check_due_def neg_index_def Let_def kluepfel_init_def)
  have i27: "randomness_inequality ?s27" by (simp add: randomness_inequality_iff)
  have i28: "randomness_inequality ?s28" by (simp add: randomness_inequality_iff)
  have u27: "kluepfel_update ?s26 ?own ?opp = Some ?s27"
    by (simp add: kluepfel_update_def neg_index_def)
  have u28: "kluepfel_update ?s27 (?own @ [C]) (?opp @ [C]) = Some ?s28"
    by (simp add: kluepfel_update_def neg_index_def)
  have r27: "kluepfel_respond ?opp (1 / 2) = Some C" by (simp add: kluepfel_respond_def)
  have r28: "kluepfel_respond (?opp @ [C]) (1 / 2) = Some C" by (simp add: kluepfel_respond_def)
  have s27: "kluepfel_strategy ?s26 ?own ?opp (1 / 2) = Some (Some C, ?s27)"
    using kluepfel_check_guard [of ?own ?s26 ?opp "1 / 2"] u27 r27 by simp
  have s28: "kluepfel_strategy ?s27 (?own @ [C]) (?opp @ [C]) (1 / 2) = Some (Some D, ?s28)"
    using kluepfel_check_guard [of "?own @ [C]" ?s27 "?opp @ [C]" "1 / 2" ?s28] u28 i28 by simp
  show ?thesis using p26 p27 i27 i28 r28 s27 s28 by simp
qed

section \<open>Harrington: the randomness test\<close>

text \<open>Outside a second round, the test of the code is the conjunction of its three
  checks, with the statistic \<open>chi_squared\<close> of the code.\<close>

lemma detect_random_checks:
  assumes "turn \<noteq> 2"
  shows "detect_random st turn =
           Some (move_history st ! 0 ! 0 / real_of_int (turn - 2) < 0.8
                 \<and> 0.25 \<le> real (recorded_defects st) / real_of_int (turn - 2)
                 \<and> real (recorded_defects st) / real_of_int (turn - 2) \<le> 0.75
                 \<and> chi_squared (move_history st) (real_of_int (turn - 2)) \<le> 3)"
  using assms by (auto simp add: detect_random_def Let_def)

text \<open>The statistic of the code is the documented one as long as no expected count is
  exactly 1; then the test of the code is the documented test.\<close>

lemma chi_squared_documented_eq:
  assumes "\<forall>(i, j) \<in> set cells. expected_matrix m i j / denom \<noteq> 1"
  shows "chi_squared m denom = chi_squared_documented m denom"
  unfolding chi_squared_def chi_squared_documented_def
proof (rule fold_cong)
  fix c assume "c \<in> set cells"
  then have "expected_matrix m (fst c) (snd c) / denom \<noteq> 1" using assms by auto
  then show "(case c of (i, j) \<Rightarrow> \<lambda>chi.
             let expct = expected_matrix m i j / denom in
             if expct > 1 then chi + (expct - m ! i ! j) ^ 2 / expct else chi)
      = (case c of (i, j) \<Rightarrow> \<lambda>chi.
             let expct = expected_matrix m i j / denom in
             if expct < 1 then chi else chi + (expct - m ! i ! j) ^ 2 / expct)"
    by (cases c) (auto simp add: Let_def fun_eq_iff)
qed simp_all

lemma detect_random_documented_eq:
  assumes "\<forall>(i, j) \<in> set cells. expected_matrix (move_history st) i j / real_of_int (turn - 2) \<noteq> 1"
  shows "detect_random st turn = detect_random_documented st turn"
  using chi_squared_documented_eq[OF assms]
  by (auto simp add: detect_random_def detect_random_documented_def Let_def)

text \<open>
  Claim C1 holds of the documented test and not of the code, which keeps a term only when
  its expected count is greater than 1 and so also drops the terms whose expected count
  is exactly 1. The opponent plays C D C D C D D C D C C C C D C D C D D D C C D D C D C C D
  on rounds 1 to 29. Harrington, still in Normal mode, reaches round 30 with the matrix
  [[2, 4], [7, 4], [3, 6], [2, 0]], 14 recorded defections of 28, and the two expected
  counts of the last row equal to 2 * 14 / 28 = 1. The statistic of the code is 82 / 33,
  below 3, and the code classifies the opponent as random and enters Defect mode; the
  documented statistic counts the two terms, is 148 / 33, above 3, and the documented
  test does not classify the opponent as random.
\<close>

theorem harrington_detect_random_boundary:
  "play harrington_strategy harrington_init
        [C, D, C, D, C, D, D, C, D, C, C, C, C, D, C, D, C, D, D, D, C, C, D, D, C, D, C, C, D] d
     = Some ([C, C, D, C, D, C, C, D, C, D, C, C, C, C, D, C, D, C, C, D, D, C, C, D, D, C, D, C, C],
         harrington_init\<lparr>recorded_defects := 13,
           move_history := [[2, 3], [7, 4], [3, 6], [2, 0]], history_row := 0,
           more_coop := - 17, generous_n_turns_ago := 20, parity_hits := 2\<rparr>)
   \<and> harrington_update_history
        (harrington_init\<lparr>recorded_defects := 13,
           move_history := [[2, 3], [7, 4], [3, 6], [2, 0]], history_row := 0,
           more_coop := - 17, generous_n_turns_ago := 20, parity_hits := 2\<rparr>) 30 D
     = harrington_init\<lparr>recorded_defects := 14,
           move_history := [[2, 4], [7, 4], [3, 6], [2, 0]], history_row := 0,
           more_coop := - 17, generous_n_turns_ago := 20, parity_hits := 2\<rparr>
   \<and> expected_matrix [[2, 4], [7, 4], [3, 6], [2, 0]] 3 0 / 28 = 1
   \<and> expected_matrix [[2, 4], [7, 4], [3, 6], [2, 0]] 3 1 / 28 = 1
   \<and> chi_squared [[2, 4], [7, 4], [3, 6], [2, 0]] 28 = 82 / 33
   \<and> chi_squared_documented [[2, 4], [7, 4], [3, 6], [2, 0]] 28 = 148 / 33
   \<and> detect_random
        (harrington_init\<lparr>recorded_defects := 14,
           move_history := [[2, 4], [7, 4], [3, 6], [2, 0]], history_row := 0,
           more_coop := - 17, generous_n_turns_ago := 20, parity_hits := 2\<rparr>) 30 = Some True
   \<and> detect_random_documented
        (harrington_init\<lparr>recorded_defects := 14,
           move_history := [[2, 4], [7, 4], [3, 6], [2, 0]], history_row := 0,
           more_coop := - 17, generous_n_turns_ago := 20, parity_hits := 2\<rparr>) 30 = Some False
   \<and> harrington_strategy
        (harrington_init\<lparr>recorded_defects := 13,
           move_history := [[2, 3], [7, 4], [3, 6], [2, 0]], history_row := 0,
           more_coop := - 17, generous_n_turns_ago := 20, parity_hits := 2\<rparr>)
        [C, C, D, C, D, C, C, D, C, D, C, C, C, C, D, C, D, C, C, D, D, C, C, D, D, C, D, C, C]
        [C, D, C, D, C, D, D, C, D, C, C, C, C, D, C, D, C, D, D, D, C, C, D, D, C, D, C, C, D] r
     = Some (D, harrington_init\<lparr>h_mode := Defect, recorded_defects := 14,
           move_history := [[2, 4], [7, 4], [3, 6], [2, 0]], history_row := 0,
           more_coop := - 17, generous_n_turns_ago := 20, parity_hits := 2\<rparr>)"
  by (simp add: play_def harrington_strategy_def harrington_normal_def harrington_try_return_def
      harrington_update_history_def detect_streak_def detect_parity_streak_def detect_random_def
      chi_squared_def expected_matrix_def row_sums_def col_sums_def cells_def neg_index_def Let_def
      cooperations_def harrington_init_def chi_squared_documented_def
      detect_random_documented_def power2_eq_square)

end
